theory Spec2Isabelle
  imports Main "HOL-Library.Sublist"
begin

section \<open>The error classes (errors.ts)\<close>

text \<open>
  The SDK's errors are one base class, \<open>AgentGramError\<close>, and five subclasses. An error
  object is a record of the class it was constructed by and the three fields of the base
  class; \<open>statusCode\<close> and \<open>code\<close> are optional (\<open>None\<close> is JavaScript's
  \<open>undefined\<close>).
\<close>

datatype error_class =
    AgentGramError
  | AuthenticationError
  | RateLimitError
  | NotFoundError
  | ValidationError
  | ServerError

record sdk_error =
  cls :: error_class
  message :: string
  statusCode :: "nat option"
  code :: "string option"

text \<open>\<open>new AgentGramError(message, statusCode, code)\<close>.\<close>

definition new_AgentGramError :: "string \<Rightarrow> nat option \<Rightarrow> string option \<Rightarrow> sdk_error" where
  "new_AgentGramError msg sc c =
     \<lparr>cls = AgentGramError, message = msg, statusCode = sc, code = c\<rparr>"

text \<open>
  The subclasses take the message alone, with a default when it is left out, and pass a
  fixed status and a fixed code to the base constructor.
\<close>

definition new_AuthenticationError :: "string option \<Rightarrow> sdk_error" where
  "new_AuthenticationError msg =
     (new_AgentGramError (case msg of None \<Rightarrow> ''Authentication failed'' | Some m \<Rightarrow> m)
        (Some 401) (Some ''AUTHENTICATION_ERROR'')) \<lparr>cls := AuthenticationError\<rparr>"

definition new_RateLimitError :: "string option \<Rightarrow> sdk_error" where
  "new_RateLimitError msg =
     (new_AgentGramError (case msg of None \<Rightarrow> ''Rate limit exceeded'' | Some m \<Rightarrow> m)
        (Some 429) (Some ''RATE_LIMIT_ERROR'')) \<lparr>cls := RateLimitError\<rparr>"

definition new_NotFoundError :: "string option \<Rightarrow> sdk_error" where
  "new_NotFoundError msg =
     (new_AgentGramError (case msg of None \<Rightarrow> ''Resource not found'' | Some m \<Rightarrow> m)
        (Some 404) (Some ''NOT_FOUND_ERROR'')) \<lparr>cls := NotFoundError\<rparr>"

definition new_ValidationError :: "string option \<Rightarrow> sdk_error" where
  "new_ValidationError msg =
     (new_AgentGramError (case msg of None \<Rightarrow> ''Validation failed'' | Some m \<Rightarrow> m)
        (Some 400) (Some ''VALIDATION_ERROR'')) \<lparr>cls := ValidationError\<rparr>"

definition new_ServerError :: "string option \<Rightarrow> sdk_error" where
  "new_ServerError msg =
     (new_AgentGramError (case msg of None \<Rightarrow> ''Internal server error'' | Some m \<Rightarrow> m)
        (Some 500) (Some ''SERVER_ERROR'')) \<lparr>cls := ServerError\<rparr>"

text \<open>
  What a JavaScript \<open>throw\<close> can carry here: an SDK error, a \<open>DOMException\<close> (name and
  message), any other \<open>Error\<close> instance (name and message; a \<open>TypeError\<close> of the
  platform, say), or a value that is no \<open>Error\<close> at all.
\<close>

datatype thrown =
    Sdk sdk_error
  | DOMException string string
  | JsError string string
  | NonError

section \<open>The wire types (types.ts)\<close>

record ApiMeta =
  page :: nat
  limit :: nat
  total :: nat

text \<open>
  \<open>ApiResponse<T>\<close> is the union of \<open>{success: true, data, meta?}\<close> and
  \<open>{success: false, error: {code, message}}\<close>. The source casts the decoded body to this
  type, so the model takes a decoded body to be one of the two variants.
\<close>

datatype 'a ApiResponse =
    ApiSuccessResponse (data: 'a) (meta: "ApiMeta option")
  | ApiErrorResponse (error_code: string) (error_message: string)

fun success :: "'a ApiResponse \<Rightarrow> bool" where
  "success (ApiSuccessResponse d m) = True"
| "success (ApiErrorResponse c m) = False"

record HttpClientConfig =
  baseUrl :: string
  apiKey :: string
  timeout :: nat

text \<open>A query parameter value: \<open>string | number | boolean\<close>; \<open>undefined\<close> is \<open>None\<close>.\<close>

datatype param_value = PString string | PNumber int | PBoolean bool

section \<open>Numbers as strings\<close>

text \<open>
  \<open>String(n)\<close> and the template \<open>${n}\<close> of an integer-valued number: the decimal
  numeral, with a minus sign below zero. (JavaScript prints exactly this for every integer
  of magnitude below \<open>2^53\<close>: every HTTP status, every timeout in whole milliseconds.)
\<close>

definition digit_char :: "nat \<Rightarrow> char" where
  "digit_char d = ''0123456789'' ! (d mod 10)"

fun decimal :: "nat \<Rightarrow> string" where
  "decimal n = (if 10 \<le> n then decimal (n div 10) else []) @ [digit_char (n mod 10)]"

definition Number_toString :: "int \<Rightarrow> string" where
  "Number_toString i = (if 0 \<le> i then decimal (nat i) else CHR ''-'' # decimal (nat (- i)))"

text \<open>\<open>String(value)\<close> of a parameter value.\<close>

fun String :: "param_value \<Rightarrow> string" where
  "String (PString s) = s"
| "String (PNumber n) = Number_toString n"
| "String (PBoolean b) = (if b then ''true'' else ''false'')"

section \<open>The platform: URL, URLSearchParams, fetch, Response\<close>

text \<open>
  A \<open>URL\<close> object: the serialisation of everything before the query, the query (absent
  or a string), the fragment, and the list of name-value pairs its \<open>searchParams\<close>
  object holds.
\<close>

record URL =
  href_base :: string
  query :: "string option"
  fragment :: "string option"
  searchParams :: "(string \<times> string) list"

text \<open>
  The \<open>application/x-www-form-urlencoded\<close> serialiser of the URL standard, over the bytes
  of a string: ASCII letters, digits and \<open>* - . _\<close> stand for themselves, a space becomes
  \<open>+\<close>, every other byte is \<open>%\<close> and two upper-case hexadecimal digits.
\<close>

definition hex_digit :: "nat \<Rightarrow> char" where
  "hex_digit d = ''0123456789ABCDEF'' ! (d mod 16)"

definition urlencoded_keep :: "char \<Rightarrow> bool" where
  "urlencoded_keep c \<longleftrightarrow>
     c \<in> set ''ABCDEFGHIJKLMNOPQRSTUVWXYZabcdefghijklmnopqrstuvwxyz0123456789*-._''"

definition urlencode_byte :: "char \<Rightarrow> string" where
  "urlencode_byte c =
     (if c = CHR '' '' then ''+''
      else if urlencoded_keep c then [c]
      else [CHR ''%'', hex_digit ((of_char c :: nat) div 16), hex_digit ((of_char c :: nat) mod 16)])"

definition urlencode :: "string \<Rightarrow> string" where
  "urlencode s = concat (map urlencode_byte s)"

fun urlencoded_serialize :: "(string \<times> string) list \<Rightarrow> string" where
  "urlencoded_serialize [] = []"
| "urlencoded_serialize [(k, v)] = urlencode k @ ''='' @ urlencode v"
| "urlencoded_serialize ((k, v) # rest) =
     urlencode k @ ''='' @ urlencode v @ ''&'' @ urlencoded_serialize rest"

text \<open>
  \<open>searchParams.set(name, value)\<close> on the list: the first pair named \<open>name\<close> gets the
  value and the other pairs of that name are removed; with no such pair, a new one is
  appended.
\<close>

fun list_set :: "string \<Rightarrow> string \<Rightarrow> (string \<times> string) list \<Rightarrow> (string \<times> string) list" where
  "list_set k v [] = [(k, v)]"
| "list_set k v ((k', v') # rest) =
     (if k' = k then (k, v) # filter (\<lambda>p. fst p \<noteq> k) rest else (k', v') # list_set k v rest)"

text \<open>
  \<open>url.searchParams.set(name, value)\<close> on the URL object: the list is updated and the
  URL's query becomes the serialised list (absent when that is the empty string).
\<close>

definition URLSearchParams_set :: "string \<Rightarrow> string \<Rightarrow> URL \<Rightarrow> URL" where
  "URLSearchParams_set k v u =
     (let l = list_set k v (searchParams u); s = urlencoded_serialize l
      in u \<lparr>searchParams := l, query := (if s = [] then None else Some s)\<rparr>)"

text \<open>\<open>url.toString()\<close>: the URL serialiser.\<close>

definition URL_toString :: "URL \<Rightarrow> string" where
  "URL_toString u =
     href_base u
     @ (case query u of None \<Rightarrow> [] | Some q \<Rightarrow> ''?'' @ q)
     @ (case fragment u of None \<Rightarrow> [] | Some f \<Rightarrow> ''#'' @ f)"

text \<open>
  A \<open>Response\<close>: its status, and what \<open>response.json()\<close> gives (\<open>None\<close> when it rejects:
  the body is not JSON). \<open>response.ok\<close> is a status from 200 to 299.
\<close>

record 'a Response =
  status :: nat
  json :: "'a ApiResponse option"

definition ok :: "'a Response \<Rightarrow> bool" where
  "ok r \<longleftrightarrow> 200 \<le> status r \<and> status r \<le> 299"

text \<open>
  The arguments of \<open>fetch\<close>: the URL and the fields of its second argument. The signal is
  the number of milliseconds after which it aborts the call: the delay of the timer that
  \<open>request\<close> sets on its own \<open>AbortController\<close>.
\<close>

record fetch_call =
  fc_url :: string
  fc_method :: string
  fc_headers :: "(string \<times> string) list"
  fc_body :: "string option"
  fc_signal :: nat

datatype 'a fetch_outcome = Resolved "'a Response" | Rejected thrown

text \<open>
  What \<open>fetch\<close> rejects with when its signal was aborted by \<open>controller.abort()\<close>: a
  \<open>DOMException\<close> named \<open>AbortError\<close>. The controller is local to one call of \<open>request\<close>
  and only the timer aborts it.
\<close>

definition timeout_abort :: thrown where
  "timeout_abort = DOMException ''AbortError'' ''This operation was aborted''"

text \<open>
  The platform functions the client calls and the repository does not define:
  \<open>new URL(s)\<close> (which throws on a string that is no absolute URL), \<open>JSON.stringify\<close>
  (which throws on a value it cannot serialise) and \<open>fetch\<close>.
\<close>

record ('a, 'b) platform =
  URL_parse :: "string \<Rightarrow> thrown + URL"
  JSON_stringify :: "'b \<Rightarrow> thrown + string"
  fetch :: "fetch_call \<Rightarrow> 'a fetch_outcome"

text \<open>
  A mock platform for concrete scenarios: the transport answers every call with one fixed
  outcome, request bodies are strings already, and \<open>new URL\<close> is given absolute URLs in
  normal form that have neither a query nor a fragment, which it leaves as they are.
\<close>

definition mock_platform :: "'a fetch_outcome \<Rightarrow> ('a, string) platform" where
  "mock_platform outcome =
     \<lparr>URL_parse = (\<lambda>s. Inr \<lparr>href_base = s, query = None, fragment = None, searchParams = []\<rparr>),
      JSON_stringify = Inr,
      fetch = (\<lambda>call. outcome)\<rparr>"

text \<open>
  The same with a transport that takes \<open>latency\<close> milliseconds to answer: a call whose
  signal fires before that is aborted.
\<close>

definition slow_mock_platform :: "nat \<Rightarrow> 'a fetch_outcome \<Rightarrow> ('a, string) platform" where
  "slow_mock_platform latency outcome =
     (mock_platform outcome)
       \<lparr>fetch := (\<lambda>call. if fc_signal call < latency then Rejected timeout_abort else outcome)\<rparr>"

section \<open>The HTTP client (http.ts)\<close>

text \<open>The constructor strips the trailing slashes of the base URL: \<open>replace(/\/+$/, '')\<close>.\<close>

definition new_HttpClient :: "HttpClientConfig \<Rightarrow> HttpClientConfig" where
  "new_HttpClient config =
     \<lparr>baseUrl = rev (dropWhile (\<lambda>c. c = CHR ''/'') (rev (baseUrl config))),
      apiKey = apiKey config,
      timeout = timeout config\<rparr>"

text \<open>
  The client that \<open>new AgentGram({apiKey})\<close> builds (client.ts): the default base URL
  and the default timeout.
\<close>

definition DEFAULT_BASE_URL :: string where
  "DEFAULT_BASE_URL = ''https://agentgram.co/api/v1''"

definition DEFAULT_TIMEOUT :: nat where
  "DEFAULT_TIMEOUT = 30000"

definition default_client :: "string \<Rightarrow> HttpClientConfig" where
  "default_client key =
     new_HttpClient \<lparr>baseUrl = DEFAULT_BASE_URL, apiKey = key, timeout = DEFAULT_TIMEOUT\<rparr>"

text \<open>
  \<open>buildUrl\<close>. The parameters are the list \<open>Object.entries(params)\<close> walks: each key of
  the object once, with its value or \<open>undefined\<close>.
\<close>

fun set_entries :: "(string \<times> param_value option) list \<Rightarrow> URL \<Rightarrow> URL" where
  "set_entries [] url = url"
| "set_entries ((key, val) # rest) url =
     set_entries rest
       (case val of None \<Rightarrow> url | Some v \<Rightarrow> URLSearchParams_set key (String v) url)"

definition buildUrl ::
  "('a, 'b) platform \<Rightarrow> HttpClientConfig \<Rightarrow> string \<Rightarrow> (string \<times> param_value option) list option
     \<Rightarrow> thrown + string" where
  "buildUrl P this path params =
     (case URL_parse P (baseUrl this @ path) of
        Inl e \<Rightarrow> Inl e
      | Inr url \<Rightarrow>
          Inr (URL_toString (case params of None \<Rightarrow> url | Some ps \<Rightarrow> set_entries ps url)))"

text \<open>\<open>throwMappedError\<close> always throws; the model returns the error it throws.\<close>

definition throwMappedError :: "nat \<Rightarrow> string \<Rightarrow> string option \<Rightarrow> sdk_error" where
  "throwMappedError st msg c =
     (if st = 400 then new_ValidationError (Some msg)
      else if st = 401 then new_AuthenticationError (Some msg)
      else if st = 404 then new_NotFoundError (Some msg)
      else if st = 429 then new_RateLimitError (Some msg)
      else if st \<ge> 500 then new_ServerError (Some msg)
      else new_AgentGramError msg (Some st) c)"

text \<open>The three headers of every request.\<close>

definition request_headers :: "HttpClientConfig \<Rightarrow> (string \<times> string) list" where
  "request_headers this =
     [(''Content-Type'', ''application/json''),
      (''Accept'', ''application/json''),
      (''Authorization'', ''Bearer '' @ apiKey this)]"

text \<open>
  The \<open>try\<close> block of \<open>request\<close>: the body is serialised (inside the block, so a throw
  of \<open>JSON.stringify\<close> is caught with the rejections of \<open>fetch\<close>) and \<open>fetch\<close> is called
  with the signal of a controller that the timer aborts after \<open>this.timeout\<close> milliseconds.
  (The \<open>finally\<close> clause clears the timer; the result does not depend on it.)
\<close>

definition try_fetch ::
  "('a, 'b) platform \<Rightarrow> HttpClientConfig \<Rightarrow> string \<Rightarrow> string \<Rightarrow> 'b option \<Rightarrow> 'a fetch_outcome" where
  "try_fetch P this meth url body =
     (case (case body of None \<Rightarrow> Inr None
                       | Some b \<Rightarrow> (case JSON_stringify P b of Inl e \<Rightarrow> Inl e | Inr s \<Rightarrow> Inr (Some s))) of
        Inl e \<Rightarrow> Rejected e
      | Inr b \<Rightarrow>
          fetch P \<lparr>fc_url = url, fc_method = meth, fc_headers = request_headers this,
                   fc_body = b, fc_signal = timeout this\<rparr>)"

text \<open>
  The \<open>catch\<close> clause of that block. Its two tests on the caught value:
  \<open>error instanceof DOMException && error.name === 'AbortError'\<close>, and
  \<open>error instanceof Error\<close> with the message read (a \<open>DOMException\<close> and an SDK error
  are \<open>Error\<close> instances too).
\<close>

fun is_AbortError :: "thrown \<Rightarrow> bool" where
  "is_AbortError (DOMException nm msg) = (nm = ''AbortError'')"
| "is_AbortError (Sdk e) = False"
| "is_AbortError (JsError nm msg) = False"
| "is_AbortError NonError = False"

fun Error_message :: "thrown \<Rightarrow> string option" where
  "Error_message (DOMException nm msg) = Some msg"
| "Error_message (JsError nm msg) = Some msg"
| "Error_message (Sdk e) = Some (message e)"
| "Error_message NonError = None"

definition catch_fetch :: "HttpClientConfig \<Rightarrow> thrown \<Rightarrow> sdk_error" where
  "catch_fetch this e =
     (if is_AbortError e
      then new_AgentGramError (''Request timed out after '' @ decimal (timeout this) @ ''ms'')
             None (Some ''TIMEOUT_ERROR'')
      else new_AgentGramError
             (case Error_message e of Some msg \<Rightarrow> msg | None \<Rightarrow> ''Network request failed'')
             None (Some ''NETWORK_ERROR''))"

text \<open>
  \<open>request\<close>. The result is the thrown value (\<open>Inl\<close>) or the returned payload (\<open>Inr\<close>),
  where \<open>None\<close> is the \<open>undefined\<close> of a 204.
\<close>

definition request ::
  "('a, 'b) platform \<Rightarrow> HttpClientConfig \<Rightarrow> string \<Rightarrow> string \<Rightarrow> 'b option
     \<Rightarrow> (string \<times> param_value option) list option \<Rightarrow> thrown + 'a option" where
  "request P this meth path body params =
     (case buildUrl P this path params of
        Inl e \<Rightarrow> Inl e
      | Inr url \<Rightarrow>
          (case try_fetch P this meth url body of
             Rejected e \<Rightarrow> Inl (Sdk (catch_fetch this e))
           | Resolved response \<Rightarrow>
               if status response = 204 then Inr None
               else
                 (case json response of
                    None \<Rightarrow>
                      Inl (Sdk (new_AgentGramError
                        (''Invalid JSON response (HTTP '' @ decimal (status response) @ '')'')
                        (Some (status response)) (Some ''PARSE_ERROR'')))
                  | Some j \<Rightarrow>
                      if \<not> ok response \<or> \<not> success j then
                        Inl (Sdk (throwMappedError (status response)
                          (if \<not> success j then error_message j
                           else ''HTTP '' @ decimal (status response))
                          (if \<not> success j then Some (error_code j) else None)))
                      else Inr (Some (data j)))))"

text \<open>The public methods.\<close>

definition get ::
  "('a, 'b) platform \<Rightarrow> HttpClientConfig \<Rightarrow> string \<Rightarrow> (string \<times> param_value option) list option
     \<Rightarrow> thrown + 'a option" where
  "get P this path params = request P this ''GET'' path None params"

definition post ::
  "('a, 'b) platform \<Rightarrow> HttpClientConfig \<Rightarrow> string \<Rightarrow> 'b option \<Rightarrow> thrown + 'a option" where
  "post P this path body = request P this ''POST'' path body None"

definition patch ::
  "('a, 'b) platform \<Rightarrow> HttpClientConfig \<Rightarrow> string \<Rightarrow> 'b option \<Rightarrow> thrown + 'a option" where
  "patch P this path body = request P this ''PATCH'' path body None"

definition delete ::
  "('a, 'b) platform \<Rightarrow> HttpClientConfig \<Rightarrow> string \<Rightarrow> thrown + 'a option" where
  "delete P this path = request P this ''DELETE'' path None None"

section \<open>Auxiliary notions for the proofs\<close>

text \<open>The pairs that the present parameters contribute, in the order of the entries.\<close>

fun present_pairs :: "(string \<times> param_value option) list \<Rightarrow> (string \<times> string) list" where
  "present_pairs [] = []"
| "present_pairs ((k, None) # rest) = present_pairs rest"
| "present_pairs ((k, Some v) # rest) = (k, String v) # present_pairs rest"

text \<open>A URL object whose query is the serialisation of its list of pairs.\<close>

definition query_of_list :: "URL \<Rightarrow> bool" where
  "query_of_list u \<longleftrightarrow>
     query u = (if urlencoded_serialize (searchParams u) = [] then None
                else Some (urlencoded_serialize (searchParams u)))"

text \<open>A JSON object with string values, as a list of its members: \<open>{id: "p1"}\<close>.\<close>

type_synonym json_object = "(string \<times> string) list"

section \<open>Evaluation lemmas\<close>

declare decimal.simps [simp del]

lemma decimal_digit: "n < 10 \<Longrightarrow> decimal n = [digit_char n]"
  by (subst decimal.simps) simp

lemma decimal_step: "10 \<le> n \<Longrightarrow> decimal n = decimal (n div 10) @ [digit_char (n mod 10)]"
  by (subst decimal.simps) simp

lemmas decimal_eval = decimal_digit decimal_step digit_char_def

lemmas new_error_defs =
  new_AgentGramError_def new_AuthenticationError_def new_RateLimitError_def
  new_NotFoundError_def new_ValidationError_def new_ServerError_def

lemma default_client_key:
  "default_client ''key'' =
     \<lparr>baseUrl = ''https://agentgram.co/api/v1'', apiKey = ''key'', timeout = 30000\<rparr>"
  by (simp add: default_client_def new_HttpClient_def DEFAULT_BASE_URL_def DEFAULT_TIMEOUT_def)

lemma mock_buildUrl:
  "buildUrl (mock_platform outcome) this path None = Inr (baseUrl this @ path)"
  by (simp add: buildUrl_def mock_platform_def URL_toString_def)

lemma slow_mock_buildUrl:
  "buildUrl (slow_mock_platform latency outcome) this path None = Inr (baseUrl this @ path)"
  by (simp add: buildUrl_def slow_mock_platform_def mock_platform_def URL_toString_def)

lemma slow_mock_try_fetch:
  "try_fetch (slow_mock_platform latency outcome) this meth url None =
     (if timeout this < latency then Rejected timeout_abort else outcome)"
  by (simp add: try_fetch_def slow_mock_platform_def mock_platform_def)

lemma mock_try_fetch:
  "try_fetch (mock_platform outcome) this meth url body = outcome"
  by (simp add: try_fetch_def mock_platform_def split: option.split)

section \<open>The two ways out of the \<open>try\<close> block\<close>

lemma request_Resolved:
  assumes "buildUrl P this path params = Inr url"
    and "try_fetch P this meth url body = Resolved r"
  shows "request P this meth path body params =
     (if status r = 204 then Inr None
      else (case json r of
              None \<Rightarrow>
                Inl (Sdk (new_AgentGramError
                  (''Invalid JSON response (HTTP '' @ decimal (status r) @ '')'')
                  (Some (status r)) (Some ''PARSE_ERROR'')))
            | Some j \<Rightarrow>
                if \<not> ok r \<or> \<not> success j then
                  Inl (Sdk (throwMappedError (status r)
                    (if \<not> success j then error_message j
                     else ''HTTP '' @ decimal (status r))
                    (if \<not> success j then Some (error_code j) else None)))
                else Inr (Some (data j))))"
  unfolding request_def assms sum.case fetch_outcome.case ..

lemma request_Rejected:
  assumes "buildUrl P this path params = Inr url"
    and "try_fetch P this meth url body = Rejected e"
  shows "request P this meth path body params = Inl (Sdk (catch_fetch this e))"
  unfolding request_def assms sum.case fetch_outcome.case ..

section \<open>Responses without content and success envelopes\<close>

text \<open>
  Claim C4. A response of status 204 makes \<open>request\<close> return \<open>undefined\<close> (\<open>None\<close>),
  whatever \<open>response.json()\<close> would give for its body \<open>b\<close>: an envelope of either kind, or
  the rejection \<open>None\<close> of a body that is not JSON. The result does not depend on \<open>b\<close>:
  the body is never decoded.
\<close>

theorem request_204_undefined:
  assumes "buildUrl P this path params = Inr url"
    and "try_fetch P this meth url body = Resolved \<lparr>status = 204, json = b\<rparr>"
  shows "request P this meth path body params = Inr None"
  using request_Resolved [OF assms] by simp

text \<open>At a 204 whose body is not JSON, answering \<open>POST /notifications/read-all\<close>.\<close>

theorem request_204_undefined_witness:
  "(let P = mock_platform (Resolved \<lparr>status = 204, json = None\<rparr>) :: (json_object, string) platform
    in buildUrl P (default_client ''key'') ''/notifications/read-all'' None
         = Inr ''https://agentgram.co/api/v1/notifications/read-all''
     \<and> try_fetch P (default_client ''key'') ''POST''
           ''https://agentgram.co/api/v1/notifications/read-all'' None
         = Resolved \<lparr>status = 204, json = None\<rparr>
     \<and> request P (default_client ''key'') ''POST'' ''/notifications/read-all'' None None
         = Inr None)"
proof -
  let ?P = "mock_platform (Resolved \<lparr>status = 204, json = None\<rparr>) :: (json_object, string) platform"
  have u: "buildUrl ?P (default_client ''key'') ''/notifications/read-all'' None
             = Inr ''https://agentgram.co/api/v1/notifications/read-all''"
    by (simp add: mock_buildUrl default_client_key)
  have f: "try_fetch ?P (default_client ''key'') ''POST''
             ''https://agentgram.co/api/v1/notifications/read-all'' None
             = Resolved \<lparr>status = 204, json = None\<rparr>"
    by (simp add: mock_try_fetch)
  from request_204_undefined [OF u f] u f show ?thesis by (simp add: Let_def)
qed

text \<open>
  Claim C8. A response with a status from 200 to 299 other than 204 whose body decodes to
  the success envelope \<open>{success: true, data: d, meta?: m}\<close> makes \<open>request\<close> return \<open>d\<close>.
\<close>

theorem request_success_data:
  assumes "buildUrl P this path params = Inr url"
    and "try_fetch P this meth url body = Resolved r"
    and "ok r" and "status r \<noteq> 204"
    and "json r = Some (ApiSuccessResponse d m)"
  shows "request P this meth path body params = Inr (Some d)"
  using request_Resolved [OF assms(1,2)] assms(3-) by simp

text \<open>
  The round trip of the specification: a \<open>GET\<close> answered with status 200 and
  \<open>{success: true, data: {id: "p1"}, meta: {page: 1, limit: 10, total: 1}}\<close> gives
  \<open>{id: "p1"}\<close>.
\<close>

theorem request_success_data_witness:
  "(let r = \<lparr>status = 200,
              json = Some (ApiSuccessResponse [(''id'', ''p1'')]
                             (Some \<lparr>page = 1, limit = 10, total = 1\<rparr>))\<rparr>;
        P = mock_platform (Resolved r) :: (json_object, string) platform
    in buildUrl P (default_client ''key'') ''/posts/p1'' None
         = Inr ''https://agentgram.co/api/v1/posts/p1''
     \<and> try_fetch P (default_client ''key'') ''GET'' ''https://agentgram.co/api/v1/posts/p1'' None
         = Resolved r
     \<and> ok r \<and> status r \<noteq> 204
     \<and> get P (default_client ''key'') ''/posts/p1'' None = Inr (Some [(''id'', ''p1'')]))"
proof -
  let ?r = "\<lparr>status = 200,
              json = Some (ApiSuccessResponse [(''id'', ''p1'')]
                             (Some \<lparr>page = 1, limit = 10, total = 1\<rparr>))\<rparr> :: json_object Response"
  let ?P = "mock_platform (Resolved ?r) :: (json_object, string) platform"
  have u: "buildUrl ?P (default_client ''key'') ''/posts/p1'' None
             = Inr ''https://agentgram.co/api/v1/posts/p1''"
    by (simp add: mock_buildUrl default_client_key)
  have f: "try_fetch ?P (default_client ''key'') ''GET'' ''https://agentgram.co/api/v1/posts/p1'' None
             = Resolved ?r"
    by (simp add: mock_try_fetch)
  have k: "ok ?r" by (simp add: ok_def)
  have n: "status ?r \<noteq> 204" by simp
  have j: "json ?r = Some (ApiSuccessResponse [(''id'', ''p1'')]
                             (Some \<lparr>page = 1, limit = 10, total = 1\<rparr>))"
    by simp
  from request_success_data [OF u f k n j] u f k show ?thesis
    by (simp add: Let_def get_def)
qed

section \<open>Errors of a decoded response\<close>

text \<open>
  Claim C5. A response with a status other than 204 whose body is not JSON (\<open>json()\<close>
  rejects) makes \<open>request\<close> throw a base-class error with the code \<open>PARSE_ERROR\<close> and the
  status of the response as its \<open>statusCode\<close>: not the error of \<open>throwMappedError\<close>, whose
  class would be \<open>ServerError\<close> or whose code would be the envelope's. This holds for
  every status but 204, so for every status from 200 to 299 but 204.
\<close>

theorem request_parse_error:
  assumes "buildUrl P this path params = Inr url"
    and "try_fetch P this meth url body = Resolved r"
    and "status r \<noteq> 204"
    and "json r = None"
  shows "request P this meth path body params =
           Inl (Sdk \<lparr>cls = AgentGramError,
                     message = ''Invalid JSON response (HTTP '' @ decimal (status r) @ '')'',
                     statusCode = Some (status r),
                     code = Some ''PARSE_ERROR''\<rparr>)"
  using request_Resolved [OF assms(1,2)] assms(3,4) by (simp add: new_AgentGramError_def)

text \<open>At a 200 whose body is not JSON.\<close>

theorem request_parse_error_witness:
  "(let r = \<lparr>status = 200, json = None\<rparr>;
        P = mock_platform (Resolved r) :: (json_object, string) platform
    in buildUrl P (default_client ''key'') ''/health'' None
         = Inr ''https://agentgram.co/api/v1/health''
     \<and> try_fetch P (default_client ''key'') ''GET'' ''https://agentgram.co/api/v1/health'' None
         = Resolved r
     \<and> status r \<noteq> 204 \<and> json r = None
     \<and> request P (default_client ''key'') ''GET'' ''/health'' None None
         = Inl (Sdk \<lparr>cls = AgentGramError, message = ''Invalid JSON response (HTTP 200)'',
                     statusCode = Some 200, code = Some ''PARSE_ERROR''\<rparr>))"
proof -
  let ?r = "\<lparr>status = 200, json = None\<rparr> :: json_object Response"
  let ?P = "mock_platform (Resolved ?r) :: (json_object, string) platform"
  have u: "buildUrl ?P (default_client ''key'') ''/health'' None
             = Inr ''https://agentgram.co/api/v1/health''"
    by (simp add: mock_buildUrl default_client_key)
  have f: "try_fetch ?P (default_client ''key'') ''GET'' ''https://agentgram.co/api/v1/health'' None
             = Resolved ?r"
    by (simp add: mock_try_fetch)
  have n: "status ?r \<noteq> 204" by simp
  have j: "json ?r = None" by simp
  from request_parse_error [OF u f n j] u f show ?thesis
    by (simp add: Let_def decimal_eval)
qed

text \<open>
  Claim C9. A response with a status from 200 to 299 other than 204 whose body decodes to
  the failure envelope \<open>{success: false, error: {code: c, message: m}}\<close> makes \<open>request\<close>
  throw an error of the base class (none of the five subclasses) with that status as its
  \<open>statusCode\<close>, the message \<open>m\<close> and the code \<open>c\<close>.
\<close>

theorem request_2xx_failure_envelope:
  assumes "buildUrl P this path params = Inr url"
    and "try_fetch P this meth url body = Resolved r"
    and "ok r" and "status r \<noteq> 204"
    and "json r = Some (ApiErrorResponse c m)"
  shows "request P this meth path body params =
           Inl (Sdk \<lparr>cls = AgentGramError, message = m, statusCode = Some (status r),
                     code = Some c\<rparr>)"
  using request_Resolved [OF assms(1,2)] assms(3-)
  by (simp add: throwMappedError_def ok_def new_AgentGramError_def)

text \<open>At a 200 that carries a failure envelope.\<close>

theorem request_2xx_failure_envelope_witness:
  "(let r = \<lparr>status = 200, json = Some (ApiErrorResponse ''QUOTA'' ''quota exceeded'')\<rparr>;
        P = mock_platform (Resolved r) :: (json_object, string) platform
    in buildUrl P (default_client ''key'') ''/posts'' None
         = Inr ''https://agentgram.co/api/v1/posts''
     \<and> try_fetch P (default_client ''key'') ''POST'' ''https://agentgram.co/api/v1/posts''
           (Some ''{}'')
         = Resolved r
     \<and> ok r \<and> status r \<noteq> 204
     \<and> request P (default_client ''key'') ''POST'' ''/posts'' (Some ''{}'') None
         = Inl (Sdk \<lparr>cls = AgentGramError, message = ''quota exceeded'',
                     statusCode = Some 200, code = Some ''QUOTA''\<rparr>))"
proof -
  let ?r = "\<lparr>status = 200, json = Some (ApiErrorResponse ''QUOTA'' ''quota exceeded'')\<rparr>
              :: json_object Response"
  let ?P = "mock_platform (Resolved ?r) :: (json_object, string) platform"
  have u: "buildUrl ?P (default_client ''key'') ''/posts'' None
             = Inr ''https://agentgram.co/api/v1/posts''"
    by (simp add: mock_buildUrl default_client_key)
  have f: "try_fetch ?P (default_client ''key'') ''POST'' ''https://agentgram.co/api/v1/posts''
             (Some ''{}'')
             = Resolved ?r"
    by (simp add: mock_try_fetch)
  have k: "ok ?r" by (simp add: ok_def)
  have n: "status ?r \<noteq> 204" by simp
  have j: "json ?r = Some (ApiErrorResponse ''QUOTA'' ''quota exceeded'')" by simp
  from request_2xx_failure_envelope [OF u f k n j] u f k show ?thesis
    by (simp add: Let_def)
qed

section \<open>Errors of the transport\<close>

text \<open>
  Claim C6. When the transport call is aborted by the timer (\<open>fetch\<close> rejects with the
  \<open>DOMException\<close> named \<open>AbortError\<close>), \<open>request\<close> throws the base-class error with the
  code \<open>TIMEOUT_ERROR\<close>, and its message is \<open>Request timed out after <timeout>ms\<close>: it
  contains the configured timeout in milliseconds, as a decimal numeral.
\<close>

theorem request_timeout_error:
  assumes "buildUrl P this path params = Inr url"
    and "try_fetch P this meth url body = Rejected (DOMException ''AbortError'' msg)"
  shows "\<exists>e. request P this meth path body params = Inl (Sdk e)
           \<and> cls e = AgentGramError
           \<and> code e = Some ''TIMEOUT_ERROR''
           \<and> message e = ''Request timed out after '' @ decimal (timeout this) @ ''ms''
           \<and> sublist (decimal (timeout this)) (message e)"
proof -
  let ?m = "''Request timed out after '' @ decimal (timeout this) @ ''ms''"
  have "request P this meth path body params =
          Inl (Sdk (new_AgentGramError ?m None (Some ''TIMEOUT_ERROR'')))"
    using request_Rejected [OF assms] by (simp add: catch_fetch_def)
  moreover have "sublist (decimal (timeout this)) ?m"
    by (rule sublist_appendI)
  ultimately show ?thesis
    by (simp add: new_AgentGramError_def)
qed

text \<open>
  With the default timeout of 30000 milliseconds, against a transport that would answer
  after 45000.
\<close>

theorem request_timeout_error_witness:
  "(let P = slow_mock_platform 45000 (Resolved \<lparr>status = 200, json = None\<rparr>)
              :: (json_object, string) platform
    in buildUrl P (default_client ''key'') ''/agents/me'' None
         = Inr ''https://agentgram.co/api/v1/agents/me''
     \<and> try_fetch P (default_client ''key'') ''GET'' ''https://agentgram.co/api/v1/agents/me'' None
         = Rejected (DOMException ''AbortError'' ''This operation was aborted'')
     \<and> request P (default_client ''key'') ''GET'' ''/agents/me'' None None
         = Inl (Sdk \<lparr>cls = AgentGramError, message = ''Request timed out after 30000ms'',
                     statusCode = None, code = Some ''TIMEOUT_ERROR''\<rparr>)
     \<and> timeout (default_client ''key'') = 30000
     \<and> sublist ''30000'' ''Request timed out after 30000ms'')"
proof -
  let ?P = "slow_mock_platform 45000 (Resolved \<lparr>status = 200, json = None\<rparr>)
              :: (json_object, string) platform"
  have u: "buildUrl ?P (default_client ''key'') ''/agents/me'' None
             = Inr ''https://agentgram.co/api/v1/agents/me''"
    by (simp add: slow_mock_buildUrl default_client_key)
  have f: "try_fetch ?P (default_client ''key'') ''GET'' ''https://agentgram.co/api/v1/agents/me'' None
             = Rejected (DOMException ''AbortError'' ''This operation was aborted'')"
    by (simp add: slow_mock_try_fetch timeout_abort_def default_client_key)
  have d: "decimal (timeout (default_client ''key'')) = ''30000''"
    by (simp add: default_client_key decimal_eval)
  from request_timeout_error [OF u f] obtain e where
    r: "request ?P (default_client ''key'') ''GET'' ''/agents/me'' None None = Inl (Sdk e)"
    and s: "sublist (decimal (timeout (default_client ''key''))) (message e)"
    by blast
  have ev: "request ?P (default_client ''key'') ''GET'' ''/agents/me'' None None
              = Inl (Sdk \<lparr>cls = AgentGramError, message = ''Request timed out after 30000ms'',
                          statusCode = None, code = Some ''TIMEOUT_ERROR''\<rparr>)"
    using request_Rejected [OF u f] d by (simp add: catch_fetch_def new_AgentGramError_def)
  from r ev have e: "e = \<lparr>cls = AgentGramError, message = ''Request timed out after 30000ms'',
                 statusCode = None, code = Some ''TIMEOUT_ERROR''\<rparr>"
    by simp
  have s': "sublist ''30000'' ''Request timed out after 30000ms''"
    using s e d by simp
  from u f ev s' show ?thesis
    by (simp add: Let_def default_client_key)
qed

text \<open>
  Claim C7. When the transport call fails and the failure is not the abort, and the value
  \<open>fetch\<close> rejected with is an \<open>Error\<close> with the message \<open>msg\<close> (the \<open>TypeError\<close> of a
  DNS, connection or socket failure), \<open>request\<close> throws the base-class error with the
  code \<open>NETWORK_ERROR\<close> and that message.
\<close>

theorem request_network_error:
  assumes "buildUrl P this path params = Inr url"
    and "try_fetch P this meth url body = Rejected e"
    and "\<not> is_AbortError e"
    and "Error_message e = Some msg"
  shows "request P this meth path body params =
           Inl (Sdk \<lparr>cls = AgentGramError, message = msg, statusCode = None,
                     code = Some ''NETWORK_ERROR''\<rparr>)"
  using request_Rejected [OF assms(1,2)] assms(3,4)
  by (simp add: catch_fetch_def new_AgentGramError_def)

text \<open>At the \<open>TypeError\<close> of a refused connection.\<close>

theorem request_network_error_witness:
  "(let e = JsError ''TypeError'' ''connect ECONNREFUSED 127.0.0.1:443'';
        P = mock_platform (Rejected e) :: (json_object, string) platform
    in buildUrl P (default_client ''key'') ''/agents/me'' None
         = Inr ''https://agentgram.co/api/v1/agents/me''
     \<and> try_fetch P (default_client ''key'') ''GET'' ''https://agentgram.co/api/v1/agents/me'' None
         = Rejected e
     \<and> \<not> is_AbortError e
     \<and> Error_message e = Some ''connect ECONNREFUSED 127.0.0.1:443''
     \<and> request P (default_client ''key'') ''GET'' ''/agents/me'' None None
         = Inl (Sdk \<lparr>cls = AgentGramError, message = ''connect ECONNREFUSED 127.0.0.1:443'',
                     statusCode = None, code = Some ''NETWORK_ERROR''\<rparr>))"
proof -
  let ?e = "JsError ''TypeError'' ''connect ECONNREFUSED 127.0.0.1:443''"
  let ?P = "mock_platform (Rejected ?e) :: (json_object, string) platform"
  have u: "buildUrl ?P (default_client ''key'') ''/agents/me'' None
             = Inr ''https://agentgram.co/api/v1/agents/me''"
    by (simp add: mock_buildUrl default_client_key)
  have f: "try_fetch ?P (default_client ''key'') ''GET'' ''https://agentgram.co/api/v1/agents/me'' None
             = Rejected ?e"
    by (simp add: mock_try_fetch)
  have a: "\<not> is_AbortError ?e" by simp
  have m: "Error_message ?e = Some ''connect ECONNREFUSED 127.0.0.1:443''" by simp
  from request_network_error [OF u f a m] u f show ?thesis
    by (simp add: Let_def)
qed

text \<open>
  Claim C10, as the code has it. Whenever the transport call fails, by the abort or
  otherwise, the error that \<open>request\<close> throws has no \<open>statusCode\<close> and is of the base
  class; its code is \<open>TIMEOUT_ERROR\<close> for the abort and \<open>NETWORK_ERROR\<close> for every other
  failure. This is a statement about the errors of the \<open>catch\<close> clause, not about every
  error with one of these two codes.
\<close>

theorem request_rejected_no_statusCode:
  assumes "buildUrl P this path params = Inr url"
    and "try_fetch P this meth url body = Rejected e"
  shows "\<exists>err. request P this meth path body params = Inl (Sdk err)
           \<and> cls err = AgentGramError
           \<and> statusCode err = None
           \<and> code err = Some (if is_AbortError e then ''TIMEOUT_ERROR'' else ''NETWORK_ERROR'')"
  using request_Rejected [OF assms]
  by (simp add: catch_fetch_def new_AgentGramError_def)

text \<open>At a rejection with a value that is no \<open>Error\<close>, which has no message to pass on.\<close>

theorem request_rejected_no_statusCode_witness:
  "(let P = mock_platform (Rejected NonError) :: (json_object, string) platform
    in buildUrl P (default_client ''key'') ''/agents/me'' None
         = Inr ''https://agentgram.co/api/v1/agents/me''
     \<and> try_fetch P (default_client ''key'') ''GET'' ''https://agentgram.co/api/v1/agents/me'' None
         = Rejected NonError
     \<and> request P (default_client ''key'') ''GET'' ''/agents/me'' None None
         = Inl (Sdk \<lparr>cls = AgentGramError, message = ''Network request failed'',
                     statusCode = None, code = Some ''NETWORK_ERROR''\<rparr>))"
proof -
  let ?P = "mock_platform (Rejected NonError) :: (json_object, string) platform"
  have u: "buildUrl ?P (default_client ''key'') ''/agents/me'' None
             = Inr ''https://agentgram.co/api/v1/agents/me''"
    by (simp add: mock_buildUrl default_client_key)
  have f: "try_fetch ?P (default_client ''key'') ''GET'' ''https://agentgram.co/api/v1/agents/me'' None
             = Rejected NonError"
    by (simp add: mock_try_fetch)
  from request_rejected_no_statusCode [OF u f] obtain err where
    r: "request ?P (default_client ''key'') ''GET'' ''/agents/me'' None None = Inl (Sdk err)"
    and c: "cls err = AgentGramError" "statusCode err = None" "code err = Some ''NETWORK_ERROR''"
    by auto
  have ev: "request ?P (default_client ''key'') ''GET'' ''/agents/me'' None None
              = Inl (Sdk \<lparr>cls = AgentGramError, message = ''Network request failed'',
                          statusCode = None, code = Some ''NETWORK_ERROR''\<rparr>)"
    using request_Rejected [OF u f] by (simp add: catch_fetch_def new_AgentGramError_def)
  from u f r c ev show ?thesis
    by (simp add: Let_def)
qed

text \<open>
  The code field alone does not tell these errors from the error of a response: the
  default branch of \<open>throwMappedError\<close> copies the envelope's \<open>error.code\<close>. A 408 whose
  envelope carries the code \<open>TIMEOUT_ERROR\<close> throws a base-class error with that code and
  with the \<open>statusCode\<close> 408.
\<close>

theorem request_timeout_code_with_statusCode_counterexample:
  "request (mock_platform
              (Resolved \<lparr>status = 408,
                         json = Some (ApiErrorResponse ''TIMEOUT_ERROR'' ''request timeout'')\<rparr>)
            :: (json_object, string) platform)
           (default_client ''key'') ''GET'' ''/agents/me'' None None
     = Inl (Sdk \<lparr>cls = AgentGramError, message = ''request timeout'',
                 statusCode = Some 408, code = Some ''TIMEOUT_ERROR''\<rparr>)
   \<and> statusCode \<lparr>cls = AgentGramError, message = ''request timeout'',
                  statusCode = Some 408, code = Some ''TIMEOUT_ERROR''\<rparr>
       \<noteq> None"
proof -
  let ?r = "\<lparr>status = 408, json = Some (ApiErrorResponse ''TIMEOUT_ERROR'' ''request timeout'')\<rparr>
              :: json_object Response"
  let ?P = "mock_platform (Resolved ?r) :: (json_object, string) platform"
  have u: "buildUrl ?P (default_client ''key'') ''/agents/me'' None
             = Inr ''https://agentgram.co/api/v1/agents/me''"
    by (simp add: mock_buildUrl default_client_key)
  have f: "try_fetch ?P (default_client ''key'') ''GET'' ''https://agentgram.co/api/v1/agents/me'' None
             = Resolved ?r"
    by (simp add: mock_try_fetch)
  show ?thesis
    using request_Resolved [OF u f]
    by (simp add: throwMappedError_def new_error_defs ok_def)
qed

section \<open>The status table\<close>

text \<open>
  Claim C1. On a failure envelope with a status of the table (400, 401, 404, 429, or 500
  and above), \<open>request\<close> throws the error class of the table. Its \<open>statusCode\<close> is the
  HTTP status for 400, 401, 404, 429 and 500; for every other status from 500 up (502 and
  503 among them) it is 500 and not the HTTP status, since \<open>new ServerError(message)\<close>
  passes the constant 500 to the base constructor.
\<close>

theorem request_mapped_statusCode:
  assumes "buildUrl P this path params = Inr url"
    and "try_fetch P this meth url body = Resolved r"
    and "json r = Some (ApiErrorResponse c m)"
    and "status r \<in> {400, 401, 404, 429} \<or> 500 \<le> status r"
  shows "\<exists>e. request P this meth path body params = Inl (Sdk e)
           \<and> cls e = (if status r = 400 then ValidationError
                       else if status r = 401 then AuthenticationError
                       else if status r = 404 then NotFoundError
                       else if status r = 429 then RateLimitError
                       else ServerError)
           \<and> statusCode e = Some (if 500 \<le> status r then 500 else status r)"
  using request_Resolved [OF assms(1,2)] assms(3,4)
  by (auto simp add: throwMappedError_def new_error_defs)

text \<open>At status 503 the error says 500.\<close>

theorem request_mapped_statusCode_witness:
  "(let r = \<lparr>status = 503,
              json = Some (ApiErrorResponse ''UNAVAILABLE'' ''service unavailable'')\<rparr>;
        P = mock_platform (Resolved r) :: (json_object, string) platform
    in buildUrl P (default_client ''key'') ''/agents/me'' None
         = Inr ''https://agentgram.co/api/v1/agents/me''
     \<and> try_fetch P (default_client ''key'') ''GET'' ''https://agentgram.co/api/v1/agents/me'' None
         = Resolved r
     \<and> 500 \<le> status r
     \<and> request P (default_client ''key'') ''GET'' ''/agents/me'' None None
         = Inl (Sdk \<lparr>cls = ServerError, message = ''service unavailable'',
                     statusCode = Some 500, code = Some ''SERVER_ERROR''\<rparr>)
     \<and> Some (500 :: nat) \<noteq> Some (status r))"
proof -
  let ?r = "\<lparr>status = 503,
              json = Some (ApiErrorResponse ''UNAVAILABLE'' ''service unavailable'')\<rparr>
              :: json_object Response"
  let ?P = "mock_platform (Resolved ?r) :: (json_object, string) platform"
  have u: "buildUrl ?P (default_client ''key'') ''/agents/me'' None
             = Inr ''https://agentgram.co/api/v1/agents/me''"
    by (simp add: mock_buildUrl default_client_key)
  have f: "try_fetch ?P (default_client ''key'') ''GET'' ''https://agentgram.co/api/v1/agents/me'' None
             = Resolved ?r"
    by (simp add: mock_try_fetch)
  have j: "json ?r = Some (ApiErrorResponse ''UNAVAILABLE'' ''service unavailable'')" by simp
  have s: "status ?r \<in> {400, 401, 404, 429} \<or> 500 \<le> status ?r" by simp
  have ev: "request ?P (default_client ''key'') ''GET'' ''/agents/me'' None None
              = Inl (Sdk \<lparr>cls = ServerError, message = ''service unavailable'',
                          statusCode = Some 500, code = Some ''SERVER_ERROR''\<rparr>)"
    using request_Resolved [OF u f] by (simp add: throwMappedError_def new_error_defs ok_def)
  from request_mapped_statusCode [OF u f j s] ev u f show ?thesis
    by (simp add: Let_def)
qed

text \<open>
  Claim C2, as the code has it. When the status is not 204 and the body decodes, and the
  status is outside 200 to 299 or the envelope is a failure envelope, \<open>request\<close> throws an
  error whose message is the envelope's \<open>error.message\<close> for a failure envelope and
  \<open>HTTP <status>\<close> otherwise. Its code is the envelope's \<open>error.code\<close> only on the default
  branch of \<open>throwMappedError\<close> (a status below 500 other than 400, 401, 404 and 429),
  where it is undefined when there is no failure envelope; for 400, 401, 404, 429 and
  every status from 500 up it is the fixed code of the error class that the status maps
  to.
\<close>

theorem request_error_message_and_code:
  assumes "buildUrl P this path params = Inr url"
    and "try_fetch P this meth url body = Resolved r"
    and "status r \<noteq> 204"
    and "json r = Some j"
    and "\<not> ok r \<or> \<not> success j"
  shows "\<exists>e. request P this meth path body params = Inl (Sdk e)
           \<and> cls e =
               (if status r = 400 then ValidationError
                else if status r = 401 then AuthenticationError
                else if status r = 404 then NotFoundError
                else if status r = 429 then RateLimitError
                else if 500 \<le> status r then ServerError
                else AgentGramError)
           \<and> message e =
               (if success j then ''HTTP '' @ decimal (status r) else error_message j)
           \<and> code e =
               (if status r = 400 then Some ''VALIDATION_ERROR''
                else if status r = 401 then Some ''AUTHENTICATION_ERROR''
                else if status r = 404 then Some ''NOT_FOUND_ERROR''
                else if status r = 429 then Some ''RATE_LIMIT_ERROR''
                else if 500 \<le> status r then Some ''SERVER_ERROR''
                else if success j then None
                else Some (error_code j))"
proof -
  from request_Resolved [OF assms(1,2)] assms(3-)
  have "request P this meth path body params =
          Inl (Sdk (throwMappedError (status r)
                    (if \<not> success j then error_message j
                     else ''HTTP '' @ decimal (status r))
                    (if \<not> success j then Some (error_code j) else None)))"
    by auto
  then show ?thesis
    by (simp add: throwMappedError_def new_error_defs)
qed

text \<open>At a 403 with a failure envelope: the default branch, which keeps the envelope's code.\<close>

theorem request_error_message_and_code_witness:
  "(let r = \<lparr>status = 403, json = Some (ApiErrorResponse ''FORBIDDEN'' ''not your post'')\<rparr>;
        P = mock_platform (Resolved r) :: (json_object, string) platform
    in buildUrl P (default_client ''key'') ''/posts/p1'' None
         = Inr ''https://agentgram.co/api/v1/posts/p1''
     \<and> try_fetch P (default_client ''key'') ''DELETE'' ''https://agentgram.co/api/v1/posts/p1'' None
         = Resolved r
     \<and> status r \<noteq> 204
     \<and> \<not> ok r
     \<and> delete P (default_client ''key'') ''/posts/p1''
         = Inl (Sdk \<lparr>cls = AgentGramError, message = ''not your post'',
                     statusCode = Some 403, code = Some ''FORBIDDEN''\<rparr>))"
proof -
  let ?r = "\<lparr>status = 403, json = Some (ApiErrorResponse ''FORBIDDEN'' ''not your post'')\<rparr>
              :: json_object Response"
  let ?P = "mock_platform (Resolved ?r) :: (json_object, string) platform"
  have u: "buildUrl ?P (default_client ''key'') ''/posts/p1'' None
             = Inr ''https://agentgram.co/api/v1/posts/p1''"
    by (simp add: mock_buildUrl default_client_key)
  have f: "try_fetch ?P (default_client ''key'') ''DELETE'' ''https://agentgram.co/api/v1/posts/p1'' None
             = Resolved ?r"
    by (simp add: mock_try_fetch)
  have n: "status ?r \<noteq> 204" by simp
  have j: "json ?r = Some (ApiErrorResponse ''FORBIDDEN'' ''not your post'')" by simp
  have k: "\<not> ok ?r \<or> \<not> success (ApiErrorResponse ''FORBIDDEN'' ''not your post'' :: json_object ApiResponse)"
    by simp
  have ev: "request ?P (default_client ''key'') ''DELETE'' ''/posts/p1'' None None
              = Inl (Sdk \<lparr>cls = AgentGramError, message = ''not your post'',
                          statusCode = Some 403, code = Some ''FORBIDDEN''\<rparr>)"
    using request_Resolved [OF u f] by (simp add: throwMappedError_def new_error_defs ok_def)
  from request_error_message_and_code [OF u f n j k] ev u f show ?thesis
    by (simp add: Let_def delete_def ok_def)
qed

text \<open>
  The scenario of the specification: a 404 with the envelope
  \<open>{success: false, error: {code: "NOT_FOUND", message: "no such agent"}}\<close> throws a
  \<open>NotFoundError\<close> with the message \<open>no such agent\<close>. Its code is \<open>NOT_FOUND_ERROR\<close>, the
  fixed code of the class, and not the envelope's \<open>NOT_FOUND\<close>.
\<close>

theorem request_envelope_code_counterexample:
  "get (mock_platform
          (Resolved \<lparr>status = 404,
                     json = Some (ApiErrorResponse ''NOT_FOUND'' ''no such agent'')\<rparr>)
        :: (json_object, string) platform)
       (default_client ''key'') ''/agents/x'' None
     = Inl (Sdk \<lparr>cls = NotFoundError, message = ''no such agent'',
                 statusCode = Some 404, code = Some ''NOT_FOUND_ERROR''\<rparr>)
   \<and> code \<lparr>cls = NotFoundError, message = ''no such agent'',
            statusCode = Some 404, code = Some ''NOT_FOUND_ERROR''\<rparr>
       \<noteq> Some (error_code (ApiErrorResponse ''NOT_FOUND'' ''no such agent'' :: json_object ApiResponse))"
proof -
  let ?r = "\<lparr>status = 404, json = Some (ApiErrorResponse ''NOT_FOUND'' ''no such agent'')\<rparr>
              :: json_object Response"
  let ?P = "mock_platform (Resolved ?r) :: (json_object, string) platform"
  have u: "buildUrl ?P (default_client ''key'') ''/agents/x'' None
             = Inr ''https://agentgram.co/api/v1/agents/x''"
    by (simp add: mock_buildUrl default_client_key)
  have f: "try_fetch ?P (default_client ''key'') ''GET'' ''https://agentgram.co/api/v1/agents/x'' None
             = Resolved ?r"
    by (simp add: mock_try_fetch)
  show ?thesis
    using request_Resolved [OF u f]
    by (simp add: get_def throwMappedError_def new_error_defs ok_def)
qed

section \<open>Query parameters\<close>

text \<open>Setting a name the list does not have appends the pair.\<close>

lemma list_set_fresh: "k \<notin> fst ` set l \<Longrightarrow> list_set k v l = l @ [(k, v)]"
  by (induction l) auto

lemma fst_present_pairs: "fst ` set (present_pairs ps) \<subseteq> fst ` set ps"
  by (induction ps rule: present_pairs.induct) auto

lemma set_entries_href_base [simp]: "href_base (set_entries ps u) = href_base u"
  by (induction ps arbitrary: u) (auto simp: URLSearchParams_set_def Let_def split: option.splits)

lemma set_entries_fragment [simp]: "fragment (set_entries ps u) = fragment u"
  by (induction ps arbitrary: u) (auto simp: URLSearchParams_set_def Let_def split: option.splits)

lemma searchParams_set [simp]:
  "searchParams (URLSearchParams_set k v u) = list_set k v (searchParams u)"
  by (simp add: URLSearchParams_set_def Let_def)

text \<open>
  The loop over the entries of an object (its keys are distinct), on a URL that has none
  of these keys yet: every present parameter appends its pair.
\<close>

lemma set_entries_searchParams:
  "distinct (map fst ps) \<Longrightarrow> fst ` set ps \<inter> fst ` set (searchParams u) = {} \<Longrightarrow>
   searchParams (set_entries ps u) = searchParams u @ present_pairs ps"
proof (induction ps arbitrary: u)
  case Nil
  then show ?case by simp
next
  case (Cons p ps)
  obtain k val where p: "p = (k, val)" by (cases p)
  show ?case
  proof (cases val)
    case None
    with Cons p show ?thesis by auto
  next
    case (Some v)
    let ?u = "URLSearchParams_set k (String v) u"
    have fresh: "k \<notin> fst ` set (searchParams u)" using Cons.prems(2) p by auto
    have sp: "searchParams ?u = searchParams u @ [(k, String v)]"
      by (simp add: list_set_fresh [OF fresh])
    have d: "distinct (map fst ps)" using Cons.prems(1) by simp
    have "k \<notin> fst ` set ps" using Cons.prems(1) p by (simp add: image_iff)
    then have disj: "fst ` set ps \<inter> fst ` set (searchParams ?u) = {}"
      using Cons.prems(2) sp by auto
    from Cons.IH [OF d disj] sp p Some show ?thesis by simp
  qed
qed

text \<open>The query string follows the list from the first \<open>set\<close> on.\<close>

lemma query_of_list_set: "query_of_list (URLSearchParams_set k v u)"
  by (simp add: query_of_list_def URLSearchParams_set_def Let_def)

lemma set_entries_query_of_list: "query_of_list u \<Longrightarrow> query_of_list (set_entries ps u)"
  by (induction ps arbitrary: u) (auto simp: query_of_list_set split: option.splits)

lemma set_entries_none_present: "present_pairs ps = [] \<Longrightarrow> set_entries ps u = u"
  by (induction ps arbitrary: u rule: present_pairs.induct) auto

lemma set_entries_some_present:
  "present_pairs ps \<noteq> [] \<Longrightarrow> query_of_list (set_entries ps u)"
  by (induction ps arbitrary: u rule: present_pairs.induct)
     (auto simp: query_of_list_set set_entries_query_of_list)

lemma urlencoded_serialize_Nil_iff [simp]: "urlencoded_serialize l = [] \<longleftrightarrow> l = []"
  by (induction l rule: urlencoded_serialize.induct) auto

lemma present_pairs_None:
  "(k, None) \<in> set ps \<Longrightarrow> distinct (map fst ps) \<Longrightarrow> k \<notin> fst ` set (present_pairs ps)"
proof (induction ps rule: present_pairs.induct)
  case 1
  then show ?case by simp
next
  case (2 k' rest)
  then show ?case using fst_present_pairs [of rest] by auto
next
  case (3 k' v rest)
  then show ?case by (auto simp: image_iff)
qed

lemma present_pairs_Some:
  "(k, Some v) \<in> set ps \<Longrightarrow> distinct (map fst ps) \<Longrightarrow>
   filter (\<lambda>p. fst p = k) (present_pairs ps) = [(k, String v)]"
proof (induction ps rule: present_pairs.induct)
  case 1
  then show ?case by simp
next
  case (2 k' rest)
  then show ?case by (auto simp: image_iff)
next
  case (3 k' v' rest)
  show ?case
  proof (cases "k' = k")
    case True
    with 3 have v: "v' = v" by (auto simp: image_iff)
    have "k \<notin> fst ` set (present_pairs rest)"
      using 3(3) True fst_present_pairs [of rest] by auto
    then have "filter (\<lambda>p. fst p = k) (present_pairs rest) = []"
      by (auto simp: filter_empty_conv)
    with True v show ?thesis by simp
  next
    case False
    with 3 show ?thesis by auto
  qed
qed

text \<open>
  Claim C3. Let the path carry no query of its own (the parsed URL \<open>u\<close> has an empty
  list of pairs) and let the parameters be the entries of an object (distinct keys). Then
  the URL that \<open>buildUrl\<close> returns is the serialisation of \<open>u\<close> after the loop, in which
  \<^item> a key whose value is \<open>undefined\<close> is no name of the list: it is left out, not sent
    empty;
  \<^item> a key with a value \<open>v\<close>, be it \<open>0\<close>, \<open>false\<close> or the empty string, has exactly one
    pair, and its value is \<open>String(v)\<close>;
  \<^item> the query of the URL is the serialised list (or the query of \<open>u\<close> when no parameter
    is present), and the parts before and after the query are those of \<open>u\<close>.
\<close>

theorem buildUrl_query_parameters:
  assumes "URL_parse P (baseUrl this @ path) = Inr u"
    and "searchParams u = []"
    and "distinct (map fst ps)"
  shows "buildUrl P this path (Some ps) = Inr (URL_toString (set_entries ps u))
       \<and> href_base (set_entries ps u) = href_base u
       \<and> fragment (set_entries ps u) = fragment u
       \<and> query (set_entries ps u) =
           (if searchParams (set_entries ps u) = [] then query u
            else Some (urlencoded_serialize (searchParams (set_entries ps u))))
       \<and> (\<forall>k. (k, None) \<in> set ps \<longrightarrow> k \<notin> fst ` set (searchParams (set_entries ps u)))
       \<and> (\<forall>k v. (k, Some v) \<in> set ps \<longrightarrow>
             filter (\<lambda>p. fst p = k) (searchParams (set_entries ps u)) = [(k, String v)])"
proof -
  have sp: "searchParams (set_entries ps u) = present_pairs ps"
    using set_entries_searchParams [of ps u] assms(2,3) by simp
  have q: "query (set_entries ps u) =
           (if searchParams (set_entries ps u) = [] then query u
            else Some (urlencoded_serialize (searchParams (set_entries ps u))))"
  proof (cases "present_pairs ps = []")
    case True
    then show ?thesis using sp set_entries_none_present [of ps u] by simp
  next
    case False
    then show ?thesis
      using sp set_entries_some_present [of ps u] by (simp add: query_of_list_def)
  qed
  have b: "buildUrl P this path (Some ps) = Inr (URL_toString (set_entries ps u))"
    by (simp add: buildUrl_def assms(1))
  show ?thesis
    using b q sp present_pairs_None [OF _ assms(3)] present_pairs_Some [OF _ assms(3)]
    by simp
qed

text \<open>
  Listing posts with \<open>{sort: undefined, limit: 0, draft: false, community: "ai agents"}\<close>:
  \<open>sort\<close> is left out, \<open>limit=0\<close> and \<open>draft=false\<close> are sent.
\<close>

theorem buildUrl_query_parameters_witness:
  "(let ps = [(''sort'', None), (''limit'', Some (PNumber 0)), (''draft'', Some (PBoolean False)),
              (''community'', Some (PString ''ai agents''))];
        u = \<lparr>href_base = ''https://agentgram.co/api/v1/posts'', query = None, fragment = None,
             searchParams = []\<rparr>;
        P = mock_platform (Rejected NonError) :: (json_object, string) platform
    in URL_parse P (baseUrl (default_client ''key'') @ ''/posts'') = Inr u
     \<and> searchParams u = []
     \<and> distinct (map fst ps)
     \<and> buildUrl P (default_client ''key'') ''/posts'' (Some ps)
         = Inr ''https://agentgram.co/api/v1/posts?limit=0&draft=false&community=ai+agents''
     \<and> searchParams (set_entries ps u)
         = [(''limit'', ''0''), (''draft'', ''false''), (''community'', ''ai agents'')]
     \<and> ''sort'' \<notin> fst ` set (searchParams (set_entries ps u))
     \<and> filter (\<lambda>p. fst p = ''limit'') (searchParams (set_entries ps u)) = [(''limit'', ''0'')]
     \<and> filter (\<lambda>p. fst p = ''draft'') (searchParams (set_entries ps u)) = [(''draft'', ''false'')])"
proof -
  let ?ps = "[(''sort'', None), (''limit'', Some (PNumber 0)), (''draft'', Some (PBoolean False)),
              (''community'', Some (PString ''ai agents''))]"
  let ?u = "\<lparr>href_base = ''https://agentgram.co/api/v1/posts'', query = None, fragment = None,
             searchParams = []\<rparr>"
  let ?P = "mock_platform (Rejected NonError) :: (json_object, string) platform"
  have p: "URL_parse ?P (baseUrl (default_client ''key'') @ ''/posts'') = Inr ?u"
    by (simp add: mock_platform_def default_client_key)
  have e: "searchParams ?u = []" by simp
  have d: "distinct (map fst ?ps)" by simp
  note t = buildUrl_query_parameters [OF p e d]
  have l: "searchParams (set_entries ?ps ?u)
             = [(''limit'', ''0''), (''draft'', ''false''), (''community'', ''ai agents'')]"
    by (simp add: Number_toString_def decimal_eval)
  have s: "urlencoded_serialize [(''limit'', ''0''), (''draft'', ''false''), (''community'', ''ai agents'')]
             = ''limit=0&draft=false&community=ai+agents''"
    by (simp add: urlencode_def urlencode_byte_def urlencoded_keep_def)
  have b: "buildUrl ?P (default_client ''key'') ''/posts'' (Some ?ps)
             = Inr ''https://agentgram.co/api/v1/posts?limit=0&draft=false&community=ai+agents''"
  proof -
    from t have "buildUrl ?P (default_client ''key'') ''/posts'' (Some ?ps)
                   = Inr (URL_toString (set_entries ?ps ?u))"
      and "href_base (set_entries ?ps ?u) = href_base ?u"
      and "fragment (set_entries ?ps ?u) = fragment ?u"
      and "query (set_entries ?ps ?u) =
           (if searchParams (set_entries ?ps ?u) = [] then query ?u
            else Some (urlencoded_serialize (searchParams (set_entries ?ps ?u))))"
      by blast+
    then show ?thesis
      unfolding l s by (simp add: URL_toString_def)
  qed
  from p e d b l show ?thesis
    unfolding Let_def by simp
qed

end
